theory Spec2Isabelle
  imports Main "HOL-Library.Word"
begin

section \<open>The PowerVS conversion from Cluster API to Machine API\<close>

text \<open>
  This theory embeds package \<open>capi2mapi\<close>'s PowerVS conversion: the three resource
  converters, \<open>rawExtensionFromPowerVSProviderSpec\<close>, \<open>toProviderSpec\<close>, \<open>ToMachine\<close>
  and \<open>ToMachineSet\<close>, with the two wrapper constructors.

  Conventions of the embedding.
  \<^item> A Go pointer \<open>*T\<close> is a \<open>T option\<close>; \<open>nil\<close> is \<open>None\<close>.
  \<^item> A Go slice is a list and the nil slice is \<open>[]\<close>; a Go \<open>map[string]string\<close> is a
    partial function and the nil map is the empty one. The code never compares either
    with nil.
  \<^item> A Go \<open>error\<close> result is a \<open>go_error option\<close>; the nil error is \<open>None\<close>.
  \<^item> A function that can dereference a nil pointer returns \<open>panic + 'a\<close>: \<open>Inl\<close> is the
    run-time panic, \<open>Inr\<close> the values the Go function returns.
  \<^item> Record fields carry a short prefix of their struct where two structs of the
    program share a field name (\<open>ref_ID\<close> for \<open>IBMPowerVSResourceReference.ID\<close>,
    \<open>res_ID\<close> for \<open>PowerVSResource.ID\<close>, and so on).
  \<^item> Structs of imported packages are modelled with the fields this code reads or
    writes and a few of their neighbours.
\<close>

subsection \<open>Errors and panics\<close>

datatype panic = NilPointerDereference

text \<open>\<open>field.Path\<close>: \<open>field.NewPath(name)\<close> and \<open>path.Child(name)\<close>, rendered by \<open>String()\<close>.\<close>

datatype Path = NewPath string | Child Path string

fun Path_String :: "Path \<Rightarrow> string" where
  "Path_String (NewPath n) = n"
| "Path_String (Child p n) = Path_String p @ ''.'' @ n"

text \<open>The cluster-api-provider-ibmcloud reference: three optional strings.\<close>

record IBMPowerVSResourceReference =
  ref_ID :: "string option"
  ref_Name :: "string option"
  ref_RegEx :: "string option"

text \<open>
  The \<open>interface{}\<close> value a \<open>field.Error\<close> carries: here either a pointer to a
  reference (possibly nil) or a reference struct.
\<close>

datatype BadValue =
  PointerValue "IBMPowerVSResourceReference option"
| StructValue IBMPowerVSResourceReference

datatype ErrorType = ErrorTypeNotFound | ErrorTypeRequired | ErrorTypeInvalid

record field_Error =
  err_Type :: ErrorType
  err_Field :: string
  err_BadValue :: BadValue
  err_Detail :: string

definition field_Invalid :: "Path \<Rightarrow> BadValue \<Rightarrow> string \<Rightarrow> field_Error" where
  "field_Invalid fldPath v detail =
     \<lparr>err_Type = ErrorTypeInvalid, err_Field = Path_String fldPath,
      err_BadValue = v, err_Detail = detail\<rparr>"

text \<open>
  Go errors: \<open>errors.New(msg)\<close>, a \<open>*field.Error\<close>, \<open>fmt.Errorf(prefix + "%w", err)\<close>
  and the aggregate of \<open>utilerrors.NewAggregate\<close>.
\<close>

datatype go_error =
  ErrorsNew string
| FieldError field_Error
| Errorf_w string go_error
| Aggregate "go_error list"

text \<open>
  \<open>utilerrors.NewAggregate\<close>: nil for an empty list, else the aggregate of the list
  (the callers below append non-nil errors only).
\<close>

definition NewAggregate :: "go_error list \<Rightarrow> go_error option" where
  "NewAggregate errlist = (if errlist = [] then None else Some (Aggregate errlist))"

definition errCAPIMachinePowerVSMachinePowerVSClusterCannotBeNil :: go_error where
  "errCAPIMachinePowerVSMachinePowerVSClusterCannotBeNil =
     ErrorsNew ''provided Machine, IBMPowerVSMachine and IBMPowerVSCluster can not be nil''"

definition errCAPIMachineSetPowerVSMachineTemplatePowerVSClusterCannotBeNil :: go_error where
  "errCAPIMachineSetPowerVSMachineTemplatePowerVSClusterCannotBeNil =
     ErrorsNew ''provided MachineSet, IBMPowerVSMachineTemplate and IBMPowerVSCluster can not be nil''"

subsection \<open>The Cluster API side\<close>

record ObjectMeta =
  Name :: string
  Namespace :: string
  Labels :: "string \<rightharpoonup> string"
  Annotations :: "string \<rightharpoonup> string"

definition zero_ObjectMeta :: ObjectMeta where
  "zero_ObjectMeta = \<lparr>Name = '''', Namespace = '''', Labels = Map.empty, Annotations = Map.empty\<rparr>"

record LocalObjectReference =
  lor_Name :: string

datatype IntOrString = FromInt "32 word" | FromString string

record IBMPowerVSMachineSpec =
  pm_ServiceInstanceID :: string
  pm_ServiceInstance :: "IBMPowerVSResourceReference option"
  pm_SSHKey :: string
  pm_Image :: "IBMPowerVSResourceReference option"
  pm_ImageRef :: "LocalObjectReference option"
  pm_SystemType :: string
  pm_ProcessorType :: string
  pm_Processors :: IntOrString
  pm_MemoryGiB :: "32 word"
  pm_Network :: IBMPowerVSResourceReference

record IBMPowerVSMachine =
  pvm_ObjectMeta :: ObjectMeta
  pvm_Spec :: IBMPowerVSMachineSpec

record IBMPowerVSMachineTemplateResource =
  tr_Spec :: IBMPowerVSMachineSpec

record IBMPowerVSMachineTemplateSpec =
  ts_Template :: IBMPowerVSMachineTemplateResource

record IBMPowerVSMachineTemplate =
  mt_ObjectMeta :: ObjectMeta
  mt_Spec :: IBMPowerVSMachineTemplateSpec

record IBMPowerVSCluster =
  pvc_ObjectMeta :: ObjectMeta

record Bootstrap =
  DataSecretName :: "string option"

record capi_MachineSpec =
  cs_ClusterName :: string
  cs_Bootstrap :: Bootstrap
  cs_Version :: "string option"
  cs_ProviderID :: "string option"
  cs_FailureDomain :: "string option"

record capi_Machine =
  cm_ObjectMeta :: ObjectMeta
  cm_Spec :: capi_MachineSpec

record capi_MachineTemplateSpec =
  cts_ObjectMeta :: ObjectMeta
  cts_Spec :: capi_MachineSpec

record capi_MachineSetSpec =
  css_ClusterName :: string
  css_Replicas :: "32 word option"
  css_Template :: capi_MachineTemplateSpec

record capi_MachineSet =
  cms_ObjectMeta :: ObjectMeta
  cms_Spec :: capi_MachineSetSpec

subsection \<open>The Machine API side\<close>

type_synonym PowerVSResourceType = string

definition PowerVSResourceTypeID :: PowerVSResourceType where
  "PowerVSResourceTypeID = ''ID''"

definition PowerVSResourceTypeName :: PowerVSResourceType where
  "PowerVSResourceTypeName = ''Name''"

definition PowerVSResourceTypeRegEx :: PowerVSResourceType where
  "PowerVSResourceTypeRegEx = ''RegEx''"

record PowerVSResource =
  res_Type :: PowerVSResourceType
  res_ID :: "string option"
  res_Name :: "string option"
  res_RegEx :: "string option"

text \<open>The zero value of \<open>var r mapiv1.PowerVSResource\<close> and of \<open>mapiv1.PowerVSResource{}\<close>.\<close>

definition zero_PowerVSResource :: PowerVSResource where
  "zero_PowerVSResource = \<lparr>res_Type = '''', res_ID = None, res_Name = None, res_RegEx = None\<rparr>"

record TypeMeta =
  Kind :: string
  APIVersion :: string

record PowerVSSecretReference =
  sec_Name :: string

record PowerVSMachineProviderConfig =
  pc_TypeMeta :: TypeMeta
  pc_ObjectMeta :: ObjectMeta
  pc_UserDataSecret :: "PowerVSSecretReference option"
  pc_CredentialsSecret :: "PowerVSSecretReference option"
  pc_ServiceInstance :: PowerVSResource
  pc_Image :: PowerVSResource
  pc_Network :: PowerVSResource
  pc_KeyPairName :: string
  pc_SystemType :: string
  pc_ProcessorType :: string
  pc_Processors :: IntOrString
  pc_MemoryGiB :: "32 word"

text \<open>\<open>runtime.RawExtension\<close>: the serialized bytes (a byte is a \<open>char\<close>).\<close>

record RawExtension =
  Raw :: string

record ProviderSpec =
  Value :: "RawExtension option"

record mapi_MachineSpec =
  ms_ObjectMeta :: ObjectMeta
  ms_ProviderSpec :: ProviderSpec
  ms_ProviderID :: "string option"

record mapi_Machine =
  mm_ObjectMeta :: ObjectMeta
  mm_Spec :: mapi_MachineSpec

record mapi_MachineTemplateSpec =
  mts_ObjectMeta :: ObjectMeta
  mts_Spec :: mapi_MachineSpec

record mapi_MachineSetSpec =
  mss_Replicas :: "32 word option"
  mss_Template :: mapi_MachineTemplateSpec

record mapi_MachineSet =
  mset_ObjectMeta :: ObjectMeta
  mset_Spec :: mapi_MachineSetSpec

subsection \<open>Collaborators outside this file\<close>

text \<open>
  \<open>fromCAPIMachineToMAPIMachine\<close> and \<open>fromCAPIMachineSetToMAPIMachineSet\<close> (the generic
  metadata conversion of the package) and \<open>json.Marshal\<close> are not part of the file under
  verification. They are parameters of the model: each is any function that returns
  the pair of results its Go signature has. Every theorem below holds for all of them,
  or names the behaviour it needs from them.
\<close>

record collaborators =
  fromCAPIMachineToMAPIMachine :: "capi_Machine \<Rightarrow> mapi_Machine option \<times> go_error option"
  fromCAPIMachineSetToMAPIMachineSet :: "capi_MachineSet \<Rightarrow> mapi_MachineSet option \<times> go_error option"
  json_Marshal :: "PowerVSMachineProviderConfig \<Rightarrow> string \<times> go_error option"

subsection \<open>The wrappers and their constructors\<close>

record machineAndPowerVSMachineAndPowerVSCluster =
  machine :: "capi_Machine option"
  powerVSMachine :: "IBMPowerVSMachine option"
  powerVSCluster :: "IBMPowerVSCluster option"

text \<open>
  The set wrapper embeds a pointer to the machine wrapper. Both have a field
  \<open>powerVSCluster\<close>; \<open>m.powerVSCluster\<close> on the set wrapper is its own field
  (\<open>set_powerVSCluster\<close>), and the promoted method \<open>m.ToMachine()\<close> runs on the
  embedded wrapper.
\<close>

record machineSetAndPowerVSMachineTemplateAndPowerVSCluster =
  machineSet :: "capi_MachineSet option"
  template :: "IBMPowerVSMachineTemplate option"
  set_powerVSCluster :: "IBMPowerVSCluster option"
  embedded :: "machineAndPowerVSMachineAndPowerVSCluster option"

definition FromMachineAndPowerVSMachineAndPowerVSCluster ::
  "capi_Machine option \<Rightarrow> IBMPowerVSMachine option \<Rightarrow> IBMPowerVSCluster option
     \<Rightarrow> machineAndPowerVSMachineAndPowerVSCluster" where
  "FromMachineAndPowerVSMachineAndPowerVSCluster m pm pc =
     \<lparr>machine = m, powerVSMachine = pm, powerVSCluster = pc\<rparr>"

text \<open>
  The set constructor reads \<open>ms.Spec\<close> and \<open>mts.Spec\<close> with no nil check: a nil
  \<open>ms\<close> or \<open>mts\<close> panics in the constructor.
\<close>

definition FromMachineSetAndPowerVSMachineTemplateAndPowerVSCluster ::
  "capi_MachineSet option \<Rightarrow> IBMPowerVSMachineTemplate option \<Rightarrow> IBMPowerVSCluster option
     \<Rightarrow> panic + machineSetAndPowerVSMachineTemplateAndPowerVSCluster" where
  "FromMachineSetAndPowerVSMachineTemplateAndPowerVSCluster ms mts pc =
     (case ms of
        None \<Rightarrow> Inl NilPointerDereference
      | Some s \<Rightarrow>
        (case mts of
           None \<Rightarrow> Inl NilPointerDereference
         | Some t \<Rightarrow>
           Inr \<lparr>machineSet = ms,
                template = mts,
                set_powerVSCluster = pc,
                embedded = Some
                  \<lparr>machine = Some
                     \<lparr>cm_ObjectMeta = zero_ObjectMeta
                        \<lparr>Labels := Labels (cts_ObjectMeta (css_Template (cms_Spec s))),
                         Annotations := Annotations (cts_ObjectMeta (css_Template (cms_Spec s)))\<rparr>,
                      cm_Spec = cts_Spec (css_Template (cms_Spec s))\<rparr>,
                   powerVSMachine = Some
                     \<lparr>pvm_ObjectMeta = zero_ObjectMeta,
                      pvm_Spec = tr_Spec (ts_Template (mt_Spec t))\<rparr>,
                   powerVSCluster = pc\<rparr>\<rparr>))"

subsection \<open>Conversion helpers\<close>

definition rawExtensionFromPowerVSProviderSpec ::
  "(PowerVSMachineProviderConfig \<Rightarrow> string \<times> go_error option)
     \<Rightarrow> PowerVSMachineProviderConfig option \<Rightarrow> RawExtension option \<times> go_error option" where
  "rawExtensionFromPowerVSProviderSpec marshal spec =
     (case spec of
        None \<Rightarrow> (Some \<lparr>Raw = []\<rparr>, None)
      | Some s \<Rightarrow>
        (case marshal s of
           (rawBytes, Some err) \<Rightarrow> (None, Some (Errorf_w ''error marshalling providerSpec: '' err))
         | (rawBytes, None) \<Rightarrow> (Some \<lparr>Raw = rawBytes\<rparr>, None)))"

definition convertPowerVSNetworkToMAPI ::
  "Path \<Rightarrow> IBMPowerVSResourceReference \<Rightarrow> PowerVSResource \<times> field_Error option" where
  "convertPowerVSNetworkToMAPI fldPath network =
     (let networkResource = zero_PowerVSResource in
      if ref_ID network \<noteq> None then
        (networkResource\<lparr>res_Type := PowerVSResourceTypeID, res_ID := ref_ID network\<rparr>, None)
      else if ref_Name network \<noteq> None then
        (networkResource\<lparr>res_Type := PowerVSResourceTypeName, res_Name := ref_Name network\<rparr>, None)
      else if ref_RegEx network \<noteq> None then
        (networkResource\<lparr>res_Type := PowerVSResourceTypeRegEx, res_RegEx := ref_RegEx network\<rparr>, None)
      else
        (networkResource,
         Some (field_Invalid fldPath (StructValue network) ''unable to convert network to MAPI'')))"

text \<open>
  The image converter ends with \<open>imageResource.Name = &imageRef.Name\<close>, reached when
  the structured reference is nil or has none of its three fields; with a nil
  \<open>imageRef\<close> that selector panics.
\<close>

definition convertPowerVSImageToMAPI ::
  "Path \<Rightarrow> IBMPowerVSResourceReference option \<Rightarrow> LocalObjectReference option
     \<Rightarrow> panic + (PowerVSResource \<times> field_Error option)" where
  "convertPowerVSImageToMAPI fldPath image' imageRef =
     (if image' = None \<and> imageRef = None then
        Inr (zero_PowerVSResource,
             Some (field_Invalid fldPath (PointerValue image')
                     ''unable to convert image, image and imageref is nil''))
      else
        (let imageResource = zero_PowerVSResource;
             fromImageRef =
               (case imageRef of
                  None \<Rightarrow> Inl NilPointerDereference
                | Some r \<Rightarrow>
                  Inr (imageResource\<lparr>res_Type := PowerVSResourceTypeName,
                                      res_Name := Some (lor_Name r)\<rparr>, None))
         in case image' of
              None \<Rightarrow> fromImageRef
            | Some img \<Rightarrow>
              if ref_ID img \<noteq> None then
                Inr (imageResource\<lparr>res_Type := PowerVSResourceTypeID, res_ID := ref_ID img\<rparr>, None)
              else if ref_Name img \<noteq> None then
                Inr (imageResource\<lparr>res_Type := PowerVSResourceTypeName, res_Name := ref_Name img\<rparr>, None)
              else if ref_RegEx img \<noteq> None then
                Inr (imageResource\<lparr>res_Type := PowerVSResourceTypeRegEx, res_RegEx := ref_RegEx img\<rparr>, None)
              else fromImageRef))"

definition convertPowerVSServiceInstanceToMAPI ::
  "Path \<Rightarrow> string \<Rightarrow> IBMPowerVSResourceReference option
     \<Rightarrow> PowerVSResource \<times> field_Error option" where
  "convertPowerVSServiceInstanceToMAPI fldPath serviceInstanceID serviceInstance =
     (let serviceInstanceResource = zero_PowerVSResource in
      if serviceInstanceID \<noteq> '''' then
        (serviceInstanceResource\<lparr>res_Type := PowerVSResourceTypeID,
                                  res_ID := Some serviceInstanceID\<rparr>, None)
      else
        (case serviceInstance of
           None \<Rightarrow>
             (serviceInstanceResource,
              Some (field_Invalid fldPath (PointerValue serviceInstance)
                      ''unable to convert service instance, service instance is nil''))
         | Some si \<Rightarrow>
           if ref_ID si \<noteq> None then
             (serviceInstanceResource\<lparr>res_Type := PowerVSResourceTypeID, res_ID := ref_ID si\<rparr>, None)
           else if ref_Name si \<noteq> None then
             (serviceInstanceResource\<lparr>res_Type := PowerVSResourceTypeName, res_Name := ref_Name si\<rparr>, None)
           else if ref_RegEx si \<noteq> None then
             (serviceInstanceResource\<lparr>res_Type := PowerVSResourceTypeRegEx, res_RegEx := ref_RegEx si\<rparr>, None)
           else
             (serviceInstanceResource,
              Some (field_Invalid fldPath (PointerValue serviceInstance)
                      ''unable to convert service instance to MAPI''))))"

text \<open>\<open>ptr.Deref(p, def)\<close>.\<close>

definition ptr_Deref :: "'a option \<Rightarrow> 'a \<Rightarrow> 'a" where
  "ptr_Deref p d = (case p of None \<Rightarrow> d | Some v \<Rightarrow> v)"

text \<open>\<open>errors = append(errors, err)\<close> under \<open>if err != nil\<close>.\<close>

definition appendErr :: "'e list \<Rightarrow> 'e option \<Rightarrow> 'e list" where
  "appendErr errors err = (case err of None \<Rightarrow> errors | Some e \<Rightarrow> errors @ [e])"

subsection \<open>toProviderSpec\<close>

text \<open>
  The field errors of the three converters are appended to the local
  \<open>field.ErrorList\<close> named \<open>errors\<close>; the function's last statement returns
  \<open>&mapiProviderConfig, warnings, nil\<close>, so the list is not part of the result.
  \<open>warnings\<close> is declared and never appended to.
\<close>

definition toProviderSpec ::
  "machineAndPowerVSMachineAndPowerVSCluster
     \<Rightarrow> panic + (PowerVSMachineProviderConfig option \<times> string list \<times> go_error option)" where
  "toProviderSpec m =
     (case (machine m, powerVSMachine m, powerVSCluster m) of
        (Some mach, Some pm, Some pc) \<Rightarrow>
          (let warnings = ([] :: string list);
               errors = ([] :: field_Error list);
               fldPath = NewPath ''spec'';
               (serviceInstance, err) =
                  convertPowerVSServiceInstanceToMAPI (Child fldPath ''serviceInstance'')
                    (pm_ServiceInstanceID (pvm_Spec pm)) (pm_ServiceInstance (pvm_Spec pm));
               errors = appendErr errors err
           in case convertPowerVSImageToMAPI (Child fldPath ''image'')
                     (pm_Image (pvm_Spec pm)) (pm_ImageRef (pvm_Spec pm)) of
                Inl p \<Rightarrow> Inl p
              | Inr (image', err) \<Rightarrow>
                (let errors = appendErr errors err;
                     (network, err) =
                        convertPowerVSNetworkToMAPI (Child fldPath ''network'')
                          (pm_Network (pvm_Spec pm));
                     errors = appendErr errors err;
                     mapiProviderConfig =
                       \<lparr>pc_TypeMeta = \<lparr>Kind = ''PowerVSMachineProviderConfig'',
                                       APIVersion = ''machine.openshift.io/v1''\<rparr>,
                        pc_ObjectMeta = zero_ObjectMeta,
                        pc_UserDataSecret = None,
                        pc_CredentialsSecret = None,
                        pc_ServiceInstance = serviceInstance,
                        pc_Image = image',
                        pc_Network = network,
                        pc_KeyPairName = pm_SSHKey (pvm_Spec pm),
                        pc_SystemType = pm_SystemType (pvm_Spec pm),
                        pc_ProcessorType = pm_ProcessorType (pvm_Spec pm),
                        pc_Processors = pm_Processors (pvm_Spec pm),
                        pc_MemoryGiB = pm_MemoryGiB (pvm_Spec pm)\<rparr>;
                     userDataSecretName = ptr_Deref (DataSecretName (cs_Bootstrap (cm_Spec mach))) '''';
                     mapiProviderConfig =
                       (if userDataSecretName \<noteq> '''' then
                          mapiProviderConfig\<lparr>pc_UserDataSecret := Some \<lparr>sec_Name = userDataSecretName\<rparr>\<rparr>
                        else mapiProviderConfig)
                 in Inr (Some mapiProviderConfig, warnings, None)))
      | _ \<Rightarrow> Inr (None, [], Some errCAPIMachinePowerVSMachinePowerVSClusterCannotBeNil))"

subsection \<open>ToMachine and ToMachineSet\<close>

definition ToMachine ::
  "collaborators \<Rightarrow> machineAndPowerVSMachineAndPowerVSCluster
     \<Rightarrow> panic + (mapi_Machine option \<times> string list \<times> go_error option)" where
  "ToMachine env m =
     (case (machine m, powerVSMachine m, powerVSCluster m) of
        (Some mach, Some pm, Some pc) \<Rightarrow>
          (case toProviderSpec m of
             Inl p \<Rightarrow> Inl p
           | Inr (mapiPowerVSSpec, warn, err) \<Rightarrow>
             (let errors = appendErr ([] :: go_error list) err;
                  warnings = ([] :: string list) @ warn;
                  (mapiMachine, err) = fromCAPIMachineToMAPIMachine env mach;
                  errors = appendErr errors err;
                  (powerVSRawExt, err) =
                     rawExtensionFromPowerVSProviderSpec (json_Marshal env) mapiPowerVSSpec;
                  errors = appendErr errors err
              in case mapiMachine of
                   None \<Rightarrow> Inl NilPointerDereference
                 | Some mm \<Rightarrow>
                   (let mapiMachine =
                          mm\<lparr>mm_Spec := (mm_Spec mm)\<lparr>ms_ProviderSpec :=
                                (ms_ProviderSpec (mm_Spec mm))\<lparr>Value := powerVSRawExt\<rparr>\<rparr>\<rparr>
                    in if length errors > 0 then Inr (None, warnings, NewAggregate errors)
                       else Inr (Some mapiMachine, warnings, None))))
      | _ \<Rightarrow> Inr (None, [], Some errCAPIMachinePowerVSMachinePowerVSClusterCannotBeNil))"

text \<open>
  \<open>mapiMachineSet.Spec.Template.Spec = mapiPowerVSMachine.Spec\<close> reads through both
  pointers: it panics when either is nil.
\<close>

definition ToMachineSet ::
  "collaborators \<Rightarrow> machineSetAndPowerVSMachineTemplateAndPowerVSCluster
     \<Rightarrow> panic + (mapi_MachineSet option \<times> string list \<times> go_error option)" where
  "ToMachineSet env m =
     (case (machineSet m, template m, set_powerVSCluster m, embedded m) of
        (Some ms, Some tmpl, Some pc, Some view) \<Rightarrow>
          (case ToMachine env view of
             Inl p \<Rightarrow> Inl p
           | Inr (mapiPowerVSMachine, warn, err) \<Rightarrow>
             (let errors = appendErr ([] :: go_error list) err;
                  warnings = ([] :: string list) @ warn;
                  (mapiMachineSet, err) = fromCAPIMachineSetToMAPIMachineSet env ms;
                  errors = appendErr errors err
              in case (mapiMachineSet, mapiPowerVSMachine) of
                   (Some mset, Some mach) \<Rightarrow>
                     (let mapiMachineSet =
                            mset\<lparr>mset_Spec := (mset_Spec mset)\<lparr>mss_Template :=
                              (mss_Template (mset_Spec mset))
                                \<lparr>mts_Spec := mm_Spec mach,
                                 mts_ObjectMeta := (mts_ObjectMeta (mss_Template (mset_Spec mset)))
                                   \<lparr>Annotations := Annotations (mm_ObjectMeta mach),
                                    Labels := Labels (mm_ObjectMeta mach)\<rparr>\<rparr>\<rparr>\<rparr>
                      in if length errors > 0 then Inr (None, warnings, NewAggregate errors)
                         else Inr (Some mapiMachineSet, warnings, None))
                 | _ \<Rightarrow> Inl NilPointerDereference))
      | _ \<Rightarrow> Inr (None, [], Some errCAPIMachineSetPowerVSMachineTemplatePowerVSClusterCannotBeNil))"

subsection \<open>Tag exclusivity of a resource reference\<close>

text \<open>
  Exactly one of \<open>ID\<close>, \<open>Name\<close>, \<open>RegEx\<close> is non-nil, and \<open>Type\<close> names that one.
\<close>

definition exactlyOneTag :: "PowerVSResource \<Rightarrow> bool" where
  "exactlyOneTag r =
     ((res_Type r = PowerVSResourceTypeID \<and>
         (\<exists>v. res_ID r = Some v) \<and> res_Name r = None \<and> res_RegEx r = None) \<or>
      (res_Type r = PowerVSResourceTypeName \<and>
         res_ID r = None \<and> (\<exists>v. res_Name r = Some v) \<and> res_RegEx r = None) \<or>
      (res_Type r = PowerVSResourceTypeRegEx \<and>
         res_ID r = None \<and> res_Name r = None \<and> (\<exists>v. res_RegEx r = Some v)))"

subsection \<open>Concrete inputs\<close>

text \<open>
  The inputs at which the theorems below are evaluated. \<open>exampleCollaborators\<close> is a
  stand-in for the collaborators: its metadata converters copy the object metadata
  and report no error, its serializer returns fixed bytes and no error.
  \<open>failingMetadataCollaborators\<close> differs in one point: its machine converter returns
  the same skeleton together with an error.
\<close>

definition emptyReference :: IBMPowerVSResourceReference where
  "emptyReference = \<lparr>ref_ID = None, ref_Name = None, ref_RegEx = None\<rparr>"

definition exampleCluster :: IBMPowerVSCluster where
  "exampleCluster = \<lparr>pvc_ObjectMeta = zero_ObjectMeta\<lparr>Name := ''cluster''\<rparr>\<rparr>"

definition exampleMachineSpec :: capi_MachineSpec where
  "exampleMachineSpec =
     \<lparr>cs_ClusterName = ''cluster'',
      cs_Bootstrap = \<lparr>DataSecretName = Some ''worker-user-data''\<rparr>,
      cs_Version = None, cs_ProviderID = None, cs_FailureDomain = None\<rparr>"

definition exampleMachine :: capi_Machine where
  "exampleMachine =
     \<lparr>cm_ObjectMeta = zero_ObjectMeta\<lparr>Labels := [''tier'' \<mapsto> ''worker''],
                                        Annotations := Map.empty\<rparr>,
      cm_Spec = exampleMachineSpec\<rparr>"

definition emptySecretMachine :: capi_Machine where
  "emptySecretMachine =
     exampleMachine\<lparr>cm_Spec := exampleMachineSpec\<lparr>cs_Bootstrap := \<lparr>DataSecretName = Some ''''\<rparr>\<rparr>\<rparr>"

definition examplePowerVSMachineSpec :: IBMPowerVSMachineSpec where
  "examplePowerVSMachineSpec =
     \<lparr>pm_ServiceInstanceID = ''si-123'',
      pm_ServiceInstance = Some \<lparr>ref_ID = None, ref_Name = Some ''my-instance'', ref_RegEx = None\<rparr>,
      pm_SSHKey = ''key'',
      pm_Image = None,
      pm_ImageRef = Some \<lparr>lor_Name = ''rhel-image''\<rparr>,
      pm_SystemType = ''s922'',
      pm_ProcessorType = ''Shared'',
      pm_Processors = FromString ''0.5'',
      pm_MemoryGiB = 32,
      pm_Network = \<lparr>ref_ID = None, ref_Name = None, ref_RegEx = Some ''^net-.*''\<rparr>\<rparr>"

definition examplePowerVSMachine :: IBMPowerVSMachine where
  "examplePowerVSMachine =
     \<lparr>pvm_ObjectMeta = zero_ObjectMeta, pvm_Spec = examplePowerVSMachineSpec\<rparr>"

definition exampleTriple :: machineAndPowerVSMachineAndPowerVSCluster where
  "exampleTriple =
     \<lparr>machine = Some exampleMachine, powerVSMachine = Some examplePowerVSMachine,
      powerVSCluster = Some exampleCluster\<rparr>"

text \<open>
  A machine whose service instance, image and network are all unresolvable: no
  legacy ID, no structured references, no image reference.
\<close>

definition invalidPowerVSMachineSpec :: IBMPowerVSMachineSpec where
  "invalidPowerVSMachineSpec =
     \<lparr>pm_ServiceInstanceID = '''',
      pm_ServiceInstance = None,
      pm_SSHKey = ''key'',
      pm_Image = None,
      pm_ImageRef = None,
      pm_SystemType = ''s922'',
      pm_ProcessorType = ''Shared'',
      pm_Processors = FromString ''0.5'',
      pm_MemoryGiB = 32,
      pm_Network = emptyReference\<rparr>"

definition invalidTriple :: machineAndPowerVSMachineAndPowerVSCluster where
  "invalidTriple =
     \<lparr>machine = Some exampleMachine,
      powerVSMachine = Some \<lparr>pvm_ObjectMeta = zero_ObjectMeta, pvm_Spec = invalidPowerVSMachineSpec\<rparr>,
      powerVSCluster = Some exampleCluster\<rparr>"

definition exampleMachineSet :: capi_MachineSet where
  "exampleMachineSet =
     \<lparr>cms_ObjectMeta = zero_ObjectMeta\<lparr>Name := ''workers''\<rparr>,
      cms_Spec =
        \<lparr>css_ClusterName = ''cluster'',
         css_Replicas = Some 3,
         css_Template =
           \<lparr>cts_ObjectMeta = zero_ObjectMeta\<lparr>Labels := [''tier'' \<mapsto> ''worker'']\<rparr>,
            cts_Spec = exampleMachineSpec\<rparr>\<rparr>\<rparr>"

definition exampleTemplate :: IBMPowerVSMachineTemplate where
  "exampleTemplate =
     \<lparr>mt_ObjectMeta = zero_ObjectMeta\<lparr>Name := ''workers-template''\<rparr>,
      mt_Spec = \<lparr>ts_Template = \<lparr>tr_Spec = examplePowerVSMachineSpec\<rparr>\<rparr>\<rparr>"

text \<open>
  The wrapper that the set constructor builds from the three objects above
  (lemma \<open>exampleSet_constructed\<close>).
\<close>

definition exampleSet :: machineSetAndPowerVSMachineTemplateAndPowerVSCluster where
  "exampleSet =
     \<lparr>machineSet = Some exampleMachineSet,
      template = Some exampleTemplate,
      set_powerVSCluster = Some exampleCluster,
      embedded = Some exampleTriple\<rparr>"

text \<open>
  A set wrapper whose own three pointers are set and whose embedded machine view
  lacks its cluster.
\<close>

definition clusterlessViewSet :: machineSetAndPowerVSMachineTemplateAndPowerVSCluster where
  "clusterlessViewSet = exampleSet\<lparr>embedded := Some (exampleTriple\<lparr>powerVSCluster := None\<rparr>)\<rparr>"

definition exampleCollaborators :: collaborators where
  "exampleCollaborators =
     \<lparr>fromCAPIMachineToMAPIMachine =
        (\<lambda>m. (Some \<lparr>mm_ObjectMeta = cm_ObjectMeta m,
                     mm_Spec = \<lparr>ms_ObjectMeta = zero_ObjectMeta,
                                ms_ProviderSpec = \<lparr>Value = None\<rparr>,
                                ms_ProviderID = cs_ProviderID (cm_Spec m)\<rparr>\<rparr>, None)),
      fromCAPIMachineSetToMAPIMachineSet =
        (\<lambda>s. (Some \<lparr>mset_ObjectMeta = cms_ObjectMeta s,
                     mset_Spec =
                       \<lparr>mss_Replicas = css_Replicas (cms_Spec s),
                        mss_Template =
                          \<lparr>mts_ObjectMeta = zero_ObjectMeta,
                           mts_Spec = \<lparr>ms_ObjectMeta = zero_ObjectMeta,
                                       ms_ProviderSpec = \<lparr>Value = None\<rparr>,
                                       ms_ProviderID = None\<rparr>\<rparr>\<rparr>\<rparr>, None)),
      json_Marshal = (\<lambda>c. (''{}'', None))\<rparr>"

definition failingMetadataCollaborators :: collaborators where
  "failingMetadataCollaborators =
     exampleCollaborators
       \<lparr>fromCAPIMachineToMAPIMachine :=
          (\<lambda>m. (fst (fromCAPIMachineToMAPIMachine exampleCollaborators m),
                 Some (ErrorsNew ''spec.version: Invalid value'')))\<rparr>"

text \<open>
  The machine and the set that the conversion gives at \<open>exampleTriple\<close> and
  \<open>exampleSet\<close> with \<open>exampleCollaborators\<close> (lemmas \<open>ToMachine_exampleTriple\<close>
  and \<open>ToMachineSet_exampleSet\<close>).
\<close>

definition exampleMachineResult :: mapi_Machine where
  "exampleMachineResult =
     \<lparr>mm_ObjectMeta = \<lparr>Name = '''', Namespace = '''', Labels = [''tier'' \<mapsto> ''worker''],
                       Annotations = Map.empty\<rparr>,
      mm_Spec = \<lparr>ms_ObjectMeta = zero_ObjectMeta,
                 ms_ProviderSpec = \<lparr>Value = Some \<lparr>Raw = ''{}''\<rparr>\<rparr>,
                 ms_ProviderID = None\<rparr>\<rparr>"

definition exampleSetResult :: mapi_MachineSet where
  "exampleSetResult =
     \<lparr>mset_ObjectMeta = \<lparr>Name = ''workers'', Namespace = '''', Labels = Map.empty,
                         Annotations = Map.empty\<rparr>,
      mset_Spec =
        \<lparr>mss_Replicas = Some 3,
         mss_Template =
           \<lparr>mts_ObjectMeta = \<lparr>Name = '''', Namespace = '''',
                               Labels = [''tier'' \<mapsto> ''worker''], Annotations = Map.empty\<rparr>,
            mts_Spec = mm_Spec exampleMachineResult\<rparr>\<rparr>\<rparr>"

section \<open>Properties\<close>

subsection \<open>Shared facts\<close>

lemmas resource_defs =
  zero_PowerVSResource_def field_Invalid_def
  PowerVSResourceTypeID_def PowerVSResourceTypeName_def PowerVSResourceTypeRegEx_def

lemmas example_defs =
  emptyReference_def exampleCluster_def exampleMachineSpec_def exampleMachine_def
  emptySecretMachine_def examplePowerVSMachineSpec_def examplePowerVSMachine_def
  exampleTriple_def invalidPowerVSMachineSpec_def invalidTriple_def exampleMachineSet_def
  exampleTemplate_def exampleSet_def clusterlessViewSet_def exampleCollaborators_def
  failingMetadataCollaborators_def exampleMachineResult_def exampleSetResult_def
  zero_ObjectMeta_def

lemma exampleSet_constructed:
  "FromMachineSetAndPowerVSMachineTemplateAndPowerVSCluster
     (Some exampleMachineSet) (Some exampleTemplate) (Some exampleCluster) = Inr exampleSet"
  by (simp add: FromMachineSetAndPowerVSMachineTemplateAndPowerVSCluster_def example_defs)

text \<open>The set constructor panics on a nil machine set or a nil template.\<close>

lemma set_constructor_nil_panics:
  "ms = None \<or> mts = None \<Longrightarrow>
   FromMachineSetAndPowerVSMachineTemplateAndPowerVSCluster ms mts pc = Inl NilPointerDereference"
  by (auto simp: FromMachineSetAndPowerVSMachineTemplateAndPowerVSCluster_def split: option.splits)

text \<open>
  What \<open>toProviderSpec\<close> returns when it returns: no warning, and a nil config exactly
  with an error.
\<close>

lemma toProviderSpec_returns:
  "toProviderSpec m = Inr (c, w, e) \<Longrightarrow> w = [] \<and> (c = None \<longleftrightarrow> e \<noteq> None)"
  by (auto simp: toProviderSpec_def Let_def split: option.splits prod.splits sum.splits)

text \<open>On a triple with no nil member, \<open>toProviderSpec\<close> never returns an error.\<close>

lemma toProviderSpec_error_nil:
  "machine m = Some mach \<Longrightarrow> powerVSMachine m = Some pm \<Longrightarrow> powerVSCluster m = Some pc \<Longrightarrow>
   toProviderSpec m = Inr (c, w, e) \<Longrightarrow> e = None"
  by (auto simp: toProviderSpec_def Let_def split: prod.splits sum.splits)

text \<open>\<open>ToMachine\<close> returns no warning, and a nil machine exactly with an error.\<close>

lemma ToMachine_returns:
  "ToMachine env m = Inr (x, w, e) \<Longrightarrow> w = [] \<and> (x = None \<longleftrightarrow> e \<noteq> None)"
  by (auto simp: ToMachine_def Let_def appendErr_def NewAggregate_def
           dest!: toProviderSpec_returns
           split: option.splits prod.splits sum.splits if_splits)

text \<open>\<open>ToMachineSet\<close> returns no warning, and a nil set exactly with an error.\<close>

lemma ToMachineSet_returns:
  "ToMachineSet env s = Inr (x, w, e) \<Longrightarrow> w = [] \<and> (x = None \<longleftrightarrow> e \<noteq> None)"
  by (auto simp: ToMachineSet_def Let_def appendErr_def NewAggregate_def
           dest!: ToMachine_returns
           split: option.splits prod.splits sum.splits if_splits)

text \<open>
  Whenever the embedded \<open>ToMachine\<close> returns an error, its machine is nil and
  \<open>ToMachineSet\<close> dereferences it.
\<close>

lemma ToMachineSet_panics_on_ToMachine_error:
  "machineSet s = Some ms \<Longrightarrow> template s = Some t \<Longrightarrow> set_powerVSCluster s = Some pc \<Longrightarrow>
   embedded s = Some view \<Longrightarrow> ToMachine env view = Inr (x, w, Some e) \<Longrightarrow>
   ToMachineSet env s = Inl NilPointerDereference"
  by (auto simp: ToMachineSet_def Let_def dest!: ToMachine_returns
           split: option.splits prod.splits)

lemma toProviderSpec_exampleTriple:
  "toProviderSpec exampleTriple =
     Inr (Some
       \<lparr>pc_TypeMeta = \<lparr>Kind = ''PowerVSMachineProviderConfig'',
                       APIVersion = ''machine.openshift.io/v1''\<rparr>,
        pc_ObjectMeta = zero_ObjectMeta,
        pc_UserDataSecret = Some \<lparr>sec_Name = ''worker-user-data''\<rparr>,
        pc_CredentialsSecret = None,
        pc_ServiceInstance = \<lparr>res_Type = ''ID'', res_ID = Some ''si-123'', res_Name = None, res_RegEx = None\<rparr>,
        pc_Image = \<lparr>res_Type = ''Name'', res_ID = None, res_Name = Some ''rhel-image'', res_RegEx = None\<rparr>,
        pc_Network = \<lparr>res_Type = ''RegEx'', res_ID = None, res_Name = None, res_RegEx = Some ''^net-.*''\<rparr>,
        pc_KeyPairName = ''key'',
        pc_SystemType = ''s922'',
        pc_ProcessorType = ''Shared'',
        pc_Processors = FromString ''0.5'',
        pc_MemoryGiB = 32\<rparr>, [], None)"
  by (simp add: toProviderSpec_def convertPowerVSServiceInstanceToMAPI_def
        convertPowerVSImageToMAPI_def convertPowerVSNetworkToMAPI_def resource_defs
        appendErr_def ptr_Deref_def Let_def example_defs)

lemma ToMachine_exampleTriple:
  "ToMachine exampleCollaborators exampleTriple = Inr (Some exampleMachineResult, [], None)"
  by (simp add: ToMachine_def toProviderSpec_def convertPowerVSServiceInstanceToMAPI_def
        convertPowerVSImageToMAPI_def convertPowerVSNetworkToMAPI_def resource_defs
        rawExtensionFromPowerVSProviderSpec_def appendErr_def ptr_Deref_def Let_def example_defs)

lemma ToMachineSet_exampleSet:
  "ToMachineSet exampleCollaborators exampleSet = Inr (Some exampleSetResult, [], None)"
  by (simp add: ToMachineSet_def ToMachine_def toProviderSpec_def
        convertPowerVSServiceInstanceToMAPI_def convertPowerVSImageToMAPI_def
        convertPowerVSNetworkToMAPI_def resource_defs rawExtensionFromPowerVSProviderSpec_def
        appendErr_def ptr_Deref_def Let_def example_defs)

subsection \<open>Collection of field errors\<close>

text \<open>
  Claim C1 (every invalid field yields an entry of the aggregate error that
  \<open>ToMachine\<close> returns). At \<open>invalidTriple\<close> each of the three converters, called as
  \<open>toProviderSpec\<close> calls it, returns a field error; \<open>toProviderSpec\<close> nevertheless
  returns a config and the nil error, and \<open>ToMachine\<close>, with collaborators that report
  no error, returns a machine and the nil error: the three field errors reach no
  caller.
\<close>

theorem toProviderSpec_drops_field_errors:
  "(\<exists>e. convertPowerVSServiceInstanceToMAPI (Child (NewPath ''spec'') ''serviceInstance'')
          (pm_ServiceInstanceID invalidPowerVSMachineSpec)
          (pm_ServiceInstance invalidPowerVSMachineSpec) = (zero_PowerVSResource, Some e)) \<and>
   (\<exists>e. convertPowerVSImageToMAPI (Child (NewPath ''spec'') ''image'')
          (pm_Image invalidPowerVSMachineSpec)
          (pm_ImageRef invalidPowerVSMachineSpec) = Inr (zero_PowerVSResource, Some e)) \<and>
   (\<exists>e. convertPowerVSNetworkToMAPI (Child (NewPath ''spec'') ''network'')
          (pm_Network invalidPowerVSMachineSpec) = (zero_PowerVSResource, Some e)) \<and>
   (\<exists>c. toProviderSpec invalidTriple = Inr (Some c, [], None) \<and>
        pc_ServiceInstance c = zero_PowerVSResource \<and>
        pc_Image c = zero_PowerVSResource \<and>
        pc_Network c = zero_PowerVSResource) \<and>
   (\<exists>mm. ToMachine exampleCollaborators invalidTriple = Inr (Some mm, [], None))"
  by (simp add: ToMachine_def toProviderSpec_def convertPowerVSServiceInstanceToMAPI_def
        convertPowerVSImageToMAPI_def convertPowerVSNetworkToMAPI_def resource_defs
        rawExtensionFromPowerVSProviderSpec_def appendErr_def ptr_Deref_def Let_def example_defs)

subsection \<open>A failed machine conversion inside ToMachineSet\<close>

text \<open>
  Claim C2 (when the inner \<open>ToMachine\<close> returns an error, \<open>ToMachineSet\<close> completes
  and returns a nil set with the aggregate error). \<open>ToMachine\<close> returns a nil machine
  with every error, and \<open>ToMachineSet\<close> then reads \<open>mapiPowerVSMachine.Spec\<close>: it
  panics. Evaluated at the set built by the constructor, with a metadata converter
  that reports an error, and at a set whose embedded view lacks its cluster.
\<close>

theorem ToMachineSet_panics_at_failing_inputs:
  "(\<exists>e. ToMachine failingMetadataCollaborators exampleTriple = Inr (None, [], Some e)) \<and>
   ToMachineSet failingMetadataCollaborators exampleSet = Inl NilPointerDereference \<and>
   embedded clusterlessViewSet = Some (exampleTriple\<lparr>powerVSCluster := None\<rparr>) \<and>
   ToMachine exampleCollaborators (exampleTriple\<lparr>powerVSCluster := None\<rparr>) =
     Inr (None, [], Some errCAPIMachinePowerVSMachinePowerVSClusterCannotBeNil) \<and>
   ToMachineSet exampleCollaborators clusterlessViewSet = Inl NilPointerDereference"
  by (simp add: ToMachineSet_def ToMachine_def toProviderSpec_def
        convertPowerVSServiceInstanceToMAPI_def convertPowerVSImageToMAPI_def
        convertPowerVSNetworkToMAPI_def resource_defs rawExtensionFromPowerVSProviderSpec_def
        appendErr_def ptr_Deref_def NewAggregate_def Let_def example_defs)

subsection \<open>An image reference with no field set\<close>

text \<open>
  Claim C3 (an image whose structured reference resolves to no tag, nil or not, and
  that has no image-name reference, yields a field error and no crash). With both
  pointers nil the converter returns the field error, at the given path. With a
  non-nil reference whose \<open>ID\<close>, \<open>Name\<close> and \<open>RegEx\<close> are nil and a nil
  \<open>imageRef\<close>, it reaches \<open>&imageRef.Name\<close> and panics.
\<close>

theorem convertPowerVSImageToMAPI_empty_reference_panics:
  "convertPowerVSImageToMAPI fldPath None None =
     Inr (zero_PowerVSResource,
          Some \<lparr>err_Type = ErrorTypeInvalid, err_Field = Path_String fldPath,
                err_BadValue = PointerValue None,
                err_Detail = ''unable to convert image, image and imageref is nil''\<rparr>) \<and>
   convertPowerVSImageToMAPI fldPath
     (Some \<lparr>ref_ID = None, ref_Name = None, ref_RegEx = None\<rparr>) None =
     Inl NilPointerDereference"
  by (simp add: convertPowerVSImageToMAPI_def field_Invalid_def)

subsection \<open>Nil inputs\<close>

text \<open>
  Claim C4. If any of machine, infra-machine and infra-cluster is nil, \<open>ToMachine\<close>
  returns a nil machine, nil warnings and its sentinel error itself (no aggregate,
  no field error). If any of machine set, template, infra-cluster and embedded
  machine view is nil, \<open>ToMachineSet\<close> returns a nil set, nil warnings and its own
  sentinel error.
\<close>

theorem precondition_fast_fail:
  "(machine m = None \<or> powerVSMachine m = None \<or> powerVSCluster m = None \<longrightarrow>
      ToMachine env m =
        Inr (None, [], Some errCAPIMachinePowerVSMachinePowerVSClusterCannotBeNil)) \<and>
   (machineSet s = None \<or> template s = None \<or> set_powerVSCluster s = None \<or> embedded s = None \<longrightarrow>
      ToMachineSet env s =
        Inr (None, [], Some errCAPIMachineSetPowerVSMachineTemplatePowerVSClusterCannotBeNil))"
  by (auto simp: ToMachine_def ToMachineSet_def split: option.splits)

theorem precondition_fast_fail_witness:
  "powerVSMachine (exampleTriple\<lparr>powerVSMachine := None\<rparr>) = None \<and>
   ToMachine exampleCollaborators (exampleTriple\<lparr>powerVSMachine := None\<rparr>) =
     Inr (None, [], Some (ErrorsNew
       ''provided Machine, IBMPowerVSMachine and IBMPowerVSCluster can not be nil'')) \<and>
   embedded (exampleSet\<lparr>embedded := None\<rparr>) = None \<and>
   ToMachineSet exampleCollaborators (exampleSet\<lparr>embedded := None\<rparr>) =
     Inr (None, [], Some (ErrorsNew
       ''provided MachineSet, IBMPowerVSMachineTemplate and IBMPowerVSCluster can not be nil''))"
  using precondition_fast_fail [of "exampleTriple\<lparr>powerVSMachine := None\<rparr>" exampleCollaborators
          "exampleSet\<lparr>embedded := None\<rparr>"]
  by (simp add: errCAPIMachinePowerVSMachinePowerVSClusterCannotBeNil_def
        errCAPIMachineSetPowerVSMachineTemplatePowerVSClusterCannotBeNil_def)

subsection \<open>The legacy service-instance ID\<close>

text \<open>
  Claim C5. With a non-empty legacy \<open>serviceInstanceID\<close> the service-instance
  converter returns the reference tagged \<open>ID\<close> that carries this string, and no
  error, whatever the structured reference is.
\<close>

theorem legacy_serviceInstanceID_wins:
  "serviceInstanceID \<noteq> '''' \<Longrightarrow>
   convertPowerVSServiceInstanceToMAPI fldPath serviceInstanceID serviceInstance =
     (\<lparr>res_Type = PowerVSResourceTypeID, res_ID = Some serviceInstanceID,
       res_Name = None, res_RegEx = None\<rparr>, None)"
  by (simp add: convertPowerVSServiceInstanceToMAPI_def zero_PowerVSResource_def)

theorem legacy_serviceInstanceID_wins_witness:
  "''si-123'' \<noteq> '''' \<and>
   convertPowerVSServiceInstanceToMAPI (Child (NewPath ''spec'') ''serviceInstance'') ''si-123''
     (Some \<lparr>ref_ID = Some ''si-456'', ref_Name = Some ''my-instance'', ref_RegEx = None\<rparr>) =
     (\<lparr>res_Type = ''ID'', res_ID = Some ''si-123'', res_Name = None, res_RegEx = None\<rparr>, None)"
  using legacy_serviceInstanceID_wins [of "''si-123''" "Child (NewPath ''spec'') ''serviceInstance''"
          "Some \<lparr>ref_ID = Some ''si-456'', ref_Name = Some ''my-instance'', ref_RegEx = None\<rparr>"]
  by (simp add: PowerVSResourceTypeID_def)

subsection \<open>Tag exclusivity\<close>

text \<open>
  Claim C6. Whenever the network, image or service-instance converter returns with
  no error, the reference it returns has exactly one of \<open>ID\<close>, \<open>Name\<close>, \<open>RegEx\<close>
  non-nil and its \<open>Type\<close> names that field.
\<close>

theorem converters_exactlyOneTag:
  "(convertPowerVSNetworkToMAPI p1 network = (r1, None) \<longrightarrow> exactlyOneTag r1) \<and>
   (convertPowerVSImageToMAPI p2 image' imageRef = Inr (r2, None) \<longrightarrow> exactlyOneTag r2) \<and>
   (convertPowerVSServiceInstanceToMAPI p3 serviceInstanceID serviceInstance = (r3, None)
      \<longrightarrow> exactlyOneTag r3)"
proof (intro conjI impI)
  assume "convertPowerVSNetworkToMAPI p1 network = (r1, None)"
  then show "exactlyOneTag r1"
    by (auto simp: convertPowerVSNetworkToMAPI_def zero_PowerVSResource_def exactlyOneTag_def
          Let_def split: if_splits)
next
  assume "convertPowerVSImageToMAPI p2 image' imageRef = Inr (r2, None)"
  then show "exactlyOneTag r2"
    by (auto simp: convertPowerVSImageToMAPI_def zero_PowerVSResource_def exactlyOneTag_def
          Let_def split: if_splits option.splits)
next
  assume "convertPowerVSServiceInstanceToMAPI p3 serviceInstanceID serviceInstance = (r3, None)"
  then show "exactlyOneTag r3"
    by (auto simp: convertPowerVSServiceInstanceToMAPI_def zero_PowerVSResource_def
          exactlyOneTag_def Let_def split: if_splits option.splits)
qed

theorem converters_exactlyOneTag_witness:
  "convertPowerVSNetworkToMAPI (Child (NewPath ''spec'') ''network'')
     \<lparr>ref_ID = None, ref_Name = None, ref_RegEx = Some ''^net-.*''\<rparr> =
     (\<lparr>res_Type = ''RegEx'', res_ID = None, res_Name = None, res_RegEx = Some ''^net-.*''\<rparr>, None) \<and>
   exactlyOneTag \<lparr>res_Type = ''RegEx'', res_ID = None, res_Name = None, res_RegEx = Some ''^net-.*''\<rparr> \<and>
   convertPowerVSImageToMAPI (Child (NewPath ''spec'') ''image'') None (Some \<lparr>lor_Name = ''rhel-image''\<rparr>) =
     Inr (\<lparr>res_Type = ''Name'', res_ID = None, res_Name = Some ''rhel-image'', res_RegEx = None\<rparr>, None) \<and>
   exactlyOneTag \<lparr>res_Type = ''Name'', res_ID = None, res_Name = Some ''rhel-image'', res_RegEx = None\<rparr> \<and>
   convertPowerVSServiceInstanceToMAPI (Child (NewPath ''spec'') ''serviceInstance'') ''''
     (Some \<lparr>ref_ID = Some ''si-123'', ref_Name = Some ''my-instance'', ref_RegEx = None\<rparr>) =
     (\<lparr>res_Type = ''ID'', res_ID = Some ''si-123'', res_Name = None, res_RegEx = None\<rparr>, None) \<and>
   exactlyOneTag \<lparr>res_Type = ''ID'', res_ID = Some ''si-123'', res_Name = None, res_RegEx = None\<rparr>"
proof -
  have n: "convertPowerVSNetworkToMAPI (Child (NewPath ''spec'') ''network'')
     \<lparr>ref_ID = None, ref_Name = None, ref_RegEx = Some ''^net-.*''\<rparr> =
     (\<lparr>res_Type = ''RegEx'', res_ID = None, res_Name = None, res_RegEx = Some ''^net-.*''\<rparr>, None)"
    by (simp add: convertPowerVSNetworkToMAPI_def resource_defs)
  have i: "convertPowerVSImageToMAPI (Child (NewPath ''spec'') ''image'') None (Some \<lparr>lor_Name = ''rhel-image''\<rparr>) =
     Inr (\<lparr>res_Type = ''Name'', res_ID = None, res_Name = Some ''rhel-image'', res_RegEx = None\<rparr>, None)"
    by (simp add: convertPowerVSImageToMAPI_def resource_defs)
  have s: "convertPowerVSServiceInstanceToMAPI (Child (NewPath ''spec'') ''serviceInstance'') ''''
     (Some \<lparr>ref_ID = Some ''si-123'', ref_Name = Some ''my-instance'', ref_RegEx = None\<rparr>) =
     (\<lparr>res_Type = ''ID'', res_ID = Some ''si-123'', res_Name = None, res_RegEx = None\<rparr>, None)"
    by (simp add: convertPowerVSServiceInstanceToMAPI_def resource_defs)
  from n i s converters_exactlyOneTag
    [of "Child (NewPath ''spec'') ''network''"
        "\<lparr>ref_ID = None, ref_Name = None, ref_RegEx = Some ''^net-.*''\<rparr>"
        "\<lparr>res_Type = ''RegEx'', res_ID = None, res_Name = None, res_RegEx = Some ''^net-.*''\<rparr>"
        "Child (NewPath ''spec'') ''image''" None "Some \<lparr>lor_Name = ''rhel-image''\<rparr>"
        "\<lparr>res_Type = ''Name'', res_ID = None, res_Name = Some ''rhel-image'', res_RegEx = None\<rparr>"
        "Child (NewPath ''spec'') ''serviceInstance''" "''''"
        "Some \<lparr>ref_ID = Some ''si-123'', ref_Name = Some ''my-instance'', ref_RegEx = None\<rparr>"
        "\<lparr>res_Type = ''ID'', res_ID = Some ''si-123'', res_Name = None, res_RegEx = None\<rparr>"]
  show ?thesis by blast
qed

subsection \<open>The template of a converted set\<close>

text \<open>
  Claim C7. Whenever \<open>ToMachineSet\<close> returns a set, the conversion \<open>ToMachine\<close> of its
  embedded machine view returns a machine and no error, and the set's template has
  that machine's labels, annotations and spec.
\<close>

theorem ToMachineSet_template_is_ToMachine:
  "ToMachineSet env s = Inr (Some mset, w, err) \<Longrightarrow>
   \<exists>view mach w'. embedded s = Some view \<and>
     ToMachine env view = Inr (Some mach, w', None) \<and>
     Labels (mts_ObjectMeta (mss_Template (mset_Spec mset))) = Labels (mm_ObjectMeta mach) \<and>
     Annotations (mts_ObjectMeta (mss_Template (mset_Spec mset))) = Annotations (mm_ObjectMeta mach) \<and>
     mts_Spec (mss_Template (mset_Spec mset)) = mm_Spec mach"
  by (auto simp: ToMachineSet_def Let_def appendErr_def dest!: ToMachine_returns
           split: option.splits prod.splits sum.splits if_splits)

theorem ToMachineSet_template_is_ToMachine_witness:
  "ToMachineSet exampleCollaborators exampleSet = Inr (Some exampleSetResult, [], None) \<and>
   Labels (mts_ObjectMeta (mss_Template (mset_Spec exampleSetResult))) = [''tier'' \<mapsto> ''worker''] \<and>
   (\<exists>view mach w'. embedded exampleSet = Some view \<and>
     ToMachine exampleCollaborators view = Inr (Some mach, w', None) \<and>
     Labels (mts_ObjectMeta (mss_Template (mset_Spec exampleSetResult))) = Labels (mm_ObjectMeta mach) \<and>
     Annotations (mts_ObjectMeta (mss_Template (mset_Spec exampleSetResult))) =
       Annotations (mm_ObjectMeta mach) \<and>
     mts_Spec (mss_Template (mset_Spec exampleSetResult)) = mm_Spec mach)"
  using ToMachineSet_template_is_ToMachine [OF ToMachineSet_exampleSet] ToMachineSet_exampleSet
  by (simp add: exampleSetResult_def)

subsection \<open>The payload encoder\<close>

text \<open>
  Claim C8. \<open>rawExtensionFromPowerVSProviderSpec\<close> on a nil config returns the empty
  \<open>RawExtension\<close> and no error. On a non-nil config it returns either the bytes of
  \<open>json.Marshal\<close> and no error, or no \<open>RawExtension\<close> and the error of \<open>json.Marshal\<close>
  wrapped under \<open>error marshalling providerSpec\<close>; never both.
\<close>

theorem rawExtensionFromPowerVSProviderSpec_results:
  "rawExtensionFromPowerVSProviderSpec marshal None = (Some \<lparr>Raw = []\<rparr>, None) \<and>
   ((\<exists>rawBytes. marshal spec = (rawBytes, None) \<and>
       rawExtensionFromPowerVSProviderSpec marshal (Some spec) = (Some \<lparr>Raw = rawBytes\<rparr>, None)) \<or>
    (\<exists>rawBytes err. marshal spec = (rawBytes, Some err) \<and>
       rawExtensionFromPowerVSProviderSpec marshal (Some spec) =
         (None, Some (Errorf_w ''error marshalling providerSpec: '' err))))"
  by (cases "marshal spec") (auto simp: rawExtensionFromPowerVSProviderSpec_def)

subsection \<open>The user-data secret\<close>

text \<open>
  Claim C9. On a triple with no nil member, \<open>toProviderSpec\<close> either panics in the
  image converter (a non-nil image reference with no field and no \<open>imageRef\<close>) or
  returns a config, and the config's \<open>UserDataSecret\<close> is the reference to the
  machine's bootstrap data-secret name when that name is present and non-empty, and
  nil when the name is nil or empty.
\<close>

theorem toProviderSpec_UserDataSecret:
  assumes "machine m = Some mach" and "powerVSMachine m = Some pm" and "powerVSCluster m = Some pc"
  shows "(toProviderSpec m = Inl NilPointerDereference \<and>
          (\<exists>img. pm_Image (pvm_Spec pm) = Some img \<and>
             ref_ID img = None \<and> ref_Name img = None \<and> ref_RegEx img = None) \<and>
          pm_ImageRef (pvm_Spec pm) = None) \<or>
         (\<exists>c. toProviderSpec m = Inr (Some c, [], None) \<and>
            pc_UserDataSecret c =
              (case DataSecretName (cs_Bootstrap (cm_Spec mach)) of
                 None \<Rightarrow> None
               | Some n \<Rightarrow> if n = '''' then None else Some \<lparr>sec_Name = n\<rparr>))"
  using assms
  by (auto simp: toProviderSpec_def convertPowerVSImageToMAPI_def Let_def ptr_Deref_def
           split: option.splits prod.splits if_splits sum.splits)

theorem toProviderSpec_UserDataSecret_witness:
  "machine exampleTriple = Some exampleMachine \<and>
   powerVSMachine exampleTriple = Some examplePowerVSMachine \<and>
   powerVSCluster exampleTriple = Some exampleCluster \<and>
   (\<exists>c. toProviderSpec exampleTriple = Inr (Some c, [], None) \<and>
      pc_UserDataSecret c = Some \<lparr>sec_Name = ''worker-user-data''\<rparr>) \<and>
   machine (exampleTriple\<lparr>machine := Some emptySecretMachine\<rparr>) = Some emptySecretMachine \<and>
   (\<exists>c. toProviderSpec (exampleTriple\<lparr>machine := Some emptySecretMachine\<rparr>) = Inr (Some c, [], None) \<and>
      pc_UserDataSecret c = None)"
proof -
  have a: "machine exampleTriple = Some exampleMachine"
    and b: "powerVSMachine exampleTriple = Some examplePowerVSMachine"
    and c: "powerVSCluster exampleTriple = Some exampleCluster"
    by (simp_all add: exampleTriple_def)
  have a': "machine (exampleTriple\<lparr>machine := Some emptySecretMachine\<rparr>) = Some emptySecretMachine"
    and b': "powerVSMachine (exampleTriple\<lparr>machine := Some emptySecretMachine\<rparr>) = Some examplePowerVSMachine"
    and c': "powerVSCluster (exampleTriple\<lparr>machine := Some emptySecretMachine\<rparr>) = Some exampleCluster"
    by (simp_all add: exampleTriple_def)
  have img: "pm_Image (pvm_Spec examplePowerVSMachine) = None"
    by (simp add: examplePowerVSMachine_def examplePowerVSMachineSpec_def)
  have n1: "DataSecretName (cs_Bootstrap (cm_Spec exampleMachine)) = Some ''worker-user-data''"
    by (simp add: exampleMachine_def exampleMachineSpec_def)
  have n2: "DataSecretName (cs_Bootstrap (cm_Spec emptySecretMachine)) = Some ''''"
    by (simp add: emptySecretMachine_def exampleMachine_def exampleMachineSpec_def)
  from toProviderSpec_UserDataSecret [OF a b c] toProviderSpec_UserDataSecret [OF a' b' c']
  show ?thesis using a b c a' img n1 n2 by simp
qed

subsection \<open>Warnings\<close>

text \<open>
  Claim C10. Whatever the input, the warnings that \<open>toProviderSpec\<close>, \<open>ToMachine\<close>
  and \<open>ToMachineSet\<close> return are empty.
\<close>

theorem conversion_returns_no_warnings:
  "(toProviderSpec m = Inr (c, w1, e1) \<longrightarrow> w1 = []) \<and>
   (ToMachine env m = Inr (x, w2, e2) \<longrightarrow> w2 = []) \<and>
   (ToMachineSet env s = Inr (y, w3, e3) \<longrightarrow> w3 = [])"
proof (intro conjI impI)
  assume "toProviderSpec m = Inr (c, w1, e1)"
  then show "w1 = []" by (simp add: toProviderSpec_returns)
next
  assume "ToMachine env m = Inr (x, w2, e2)"
  then show "w2 = []" by (simp add: ToMachine_returns)
next
  assume "ToMachineSet env s = Inr (y, w3, e3)"
  then show "w3 = []" by (simp add: ToMachineSet_returns)
qed

theorem conversion_returns_no_warnings_witness:
  "(\<exists>c e. toProviderSpec exampleTriple = Inr (c, [], e)) \<and>
   (\<exists>x e. ToMachine exampleCollaborators exampleTriple = Inr (x, [], e)) \<and>
   (\<exists>y e. ToMachineSet exampleCollaborators exampleSet = Inr (y, [], e)) \<and>
   (\<exists>x e. ToMachine exampleCollaborators invalidTriple = Inr (x, [], e))"
proof -
  obtain c w1 e1 where a: "toProviderSpec exampleTriple = Inr (c, w1, e1)"
    using toProviderSpec_exampleTriple by blast
  obtain x w2 e2 where b: "ToMachine exampleCollaborators exampleTriple = Inr (x, w2, e2)"
    using ToMachine_exampleTriple by blast
  obtain y w3 e3 where d: "ToMachineSet exampleCollaborators exampleSet = Inr (y, w3, e3)"
    using ToMachineSet_exampleSet by blast
  obtain x' w4 e4 where f: "ToMachine exampleCollaborators invalidTriple = Inr (x', w4, e4)"
    by (simp add: ToMachine_def toProviderSpec_def convertPowerVSServiceInstanceToMAPI_def
          convertPowerVSImageToMAPI_def convertPowerVSNetworkToMAPI_def resource_defs
          rawExtensionFromPowerVSProviderSpec_def appendErr_def ptr_Deref_def Let_def example_defs)
  from conversion_returns_no_warnings [of exampleTriple c w1 e1 exampleCollaborators x w2 e2
         exampleSet y w3 e3] a b d
  have "w1 = []" and "w2 = []" and "w3 = []" by simp_all
  moreover from conversion_returns_no_warnings [of invalidTriple _ _ _ exampleCollaborators x' w4 e4] f
  have "w4 = []" by simp
  ultimately show ?thesis using a b d f by blast
qed

end
